theory Spec2Isabelle
  imports Main
begin

section \<open>Go runtime and standard-library operations used by the gateway\<close>

text \<open>
  The gateway (\<^verbatim>\<open>cmd/apigateway/main.go\<close>) is three closures handed to
  \<^verbatim>\<open>httputil.ReverseProxy\<close>: \<^verbatim>\<open>director\<close>, \<^verbatim>\<open>modifyFunc\<close> and \<^verbatim>\<open>errFunc\<close>.
  Go strings and byte slices are byte sequences, so both are \<open>string\<close> here (a \<open>char\<close> is
  one byte). A value of Go's interface type \<^verbatim>\<open>error\<close> is \<open>None\<close> for \<^verbatim>\<open>nil\<close> and
  \<open>Some msg\<close> for an error whose \<^verbatim>\<open>Error()\<close> text is \<open>msg\<close>. A run-time panic is a
  value of type \<open>panic\<close>.
\<close>

type_synonym bytes = string

type_synonym error = "string option"

datatype panic =
    IndexOutOfRange int nat
  | SliceBoundsOutOfRange nat nat
  | DivideByZero
  | NilDereference

text \<open>\<^verbatim>\<open>xs[i]\<close>: panics unless \<open>0 \<le> i < len(xs)\<close>.\<close>

definition index :: "'a list \<Rightarrow> int \<Rightarrow> panic + 'a" where
  "index xs i =
     (if 0 \<le> i \<and> i < int (length xs) then Inr (xs ! nat i)
      else Inl (IndexOutOfRange i (length xs)))"

text \<open>\<^verbatim>\<open>xs[lo:]\<close>: panics unless \<open>lo \<le> len(xs)\<close>.\<close>

definition slice_from :: "'a list \<Rightarrow> nat \<Rightarrow> panic + 'a list" where
  "slice_from xs lo =
     (if lo \<le> length xs then Inr (drop lo xs)
      else Inl (SliceBoundsOutOfRange lo (length xs)))"

text \<open>\<^verbatim>\<open>err.Error()\<close>: a method call on a nil interface value panics.\<close>

definition Error :: "error \<Rightarrow> panic + string" where
  "Error err = (case err of None \<Rightarrow> Inl NilDereference | Some msg \<Rightarrow> Inr msg)"

text \<open>
  Go's \<^verbatim>\<open>%\<close> on \<^verbatim>\<open>int\<close>: the remainder of the division that truncates towards zero;
  a zero divisor panics.
\<close>

definition go_rem :: "int \<Rightarrow> int \<Rightarrow> panic + int" where
  "go_rem a b = (if b = 0 then Inl DivideByZero else Inr (sgn a * (\<bar>a\<bar> mod \<bar>b\<bar>)))"

text \<open>
  \<^verbatim>\<open>strings.Split(s, sep)\<close> for a one-byte separator: the substrings between the
  occurrences of the separator; a string without the separator (the empty string too)
  gives the one-element slice holding the string itself.
\<close>

fun Split :: "string \<Rightarrow> char \<Rightarrow> string list" where
  "Split [] c = [[]]"
| "Split (x # xs) c =
     (if x = c then [] # Split xs c
      else (case Split xs c of
              [] \<Rightarrow> [[x]]
            | y # ys \<Rightarrow> (x # y) # ys))"

text \<open>\<^verbatim>\<open>strings.Join(elems, sep)\<close>.\<close>

fun Join :: "string list \<Rightarrow> string \<Rightarrow> string" where
  "Join [] sep = []"
| "Join [x] sep = x"
| "Join (x # y # ys) sep = x @ sep @ Join (y # ys) sep"

text \<open>
  \<^verbatim>\<open>strconv.FormatInt(n, 10)\<close> and the verb \<^verbatim>\<open>%d\<close> of \<^verbatim>\<open>fmt.Sprintf\<close>: the decimal
  digits, most significant first, after a minus sign for a negative number.
\<close>

definition digit :: "nat \<Rightarrow> char" where
  "digit d = ''0123456789'' ! d"

fun utoa :: "nat \<Rightarrow> string" where
  "utoa n = (if n < 10 then [digit n] else utoa (n div 10) @ [digit (n mod 10)])"

declare utoa.simps [simp del]

definition FormatInt :: "int \<Rightarrow> string" where
  "FormatInt n = (if n < 0 then CHR ''-'' # utoa (nat (- n)) else utoa (nat n))"

text \<open>
  \<^verbatim>\<open>http.Header\<close> is a map from header names to value lists. \<^verbatim>\<open>Header.Set\<close> replaces
  the values of a name by the one given, \<^verbatim>\<open>Header.Del\<close> removes the name. Both
  canonicalise the name first; the names the gateway and \<^verbatim>\<open>http.Error\<close> pass are all
  in canonical form already.
\<close>

type_synonym Header = "string \<rightharpoonup> string list"

definition Header_Set :: "Header \<Rightarrow> string \<Rightarrow> string \<Rightarrow> Header" where
  "Header_Set h k v = h(k \<mapsto> [v])"

definition Header_Del :: "Header \<Rightarrow> string \<Rightarrow> Header" where
  "Header_Del h k = h(k := None)"

section \<open>Requests, responses and the registry\<close>

record URL =
  Scheme :: string
  Host :: string
  Path :: string

record Request =
  Method :: string
  Url :: URL
  ReqHeader :: Header
  RemoteAddr :: string

text \<open>\<^verbatim>\<open>api.CatalogService\<close>, with the three fields the gateway reads.\<close>

record CatalogService =
  ServiceID :: string
  ServiceAddress :: string
  ServicePort :: int

text \<open>
  \<^verbatim>\<open>client.Catalog().Service(name, "", nil)\<close> is the registry, outside the program: a
  parameter giving, for a service name, the pair \<^verbatim>\<open>(result, err)\<close> the call returns.
  \<^verbatim>\<open>rand.Int()\<close> is a parameter too: the number the call returns.
\<close>

type_synonym catalog = "string \<Rightarrow> CatalogService list \<times> error"

text \<open>What a closure does besides changing its argument: log records and registry calls.\<close>

datatype event =
    Logged "string list"
  | Lookup string

text \<open>
  A response body is a reader: \<^verbatim>\<open>ioutil.ReadAll\<close> returns the bytes it could read and
  the error that stopped it (\<^verbatim>\<open>nil\<close> at the end of the data).
\<close>

datatype body = Reader bytes error

fun ReadAll :: "body \<Rightarrow> bytes \<times> error" where
  "ReadAll (Reader bs e) = (bs, e)"

text \<open>\<^verbatim>\<open>ioutil.NopCloser(bytes.NewBuffer(p))\<close>: a reader of exactly the bytes \<open>p\<close>.\<close>

definition NewBuffer :: "bytes \<Rightarrow> body" where
  "NewBuffer p = Reader p None"

record Response =
  StatusCode :: int
  Body :: body
  ContentLength :: int
  RespHeader :: Header

text \<open>
  \<^verbatim>\<open>http.ResponseWriter\<close>: the headers, the status once written, and the body written so
  far. \<^verbatim>\<open>WriteHeader\<close> has no effect once a status is written; the first write without
  one sends status 200.
\<close>

record ResponseWriter =
  WHeader :: Header
  Status :: "int option"
  Written :: bytes

definition WriteHeader :: "ResponseWriter \<Rightarrow> int \<Rightarrow> ResponseWriter" where
  "WriteHeader w code = (if Status w = None then w\<lparr>Status := Some code\<rparr> else w)"

definition Write :: "ResponseWriter \<Rightarrow> bytes \<Rightarrow> ResponseWriter" where
  "Write w p = (let w' = WriteHeader w 200 in w'\<lparr>Written := Written w' @ p\<rparr>)"

text \<open>
  \<^verbatim>\<open>http.Error(w, msg, code)\<close>: drops Content-Length, sets the plain-text content type,
  writes the status and then the message followed by a newline.
\<close>

definition http_Error :: "ResponseWriter \<Rightarrow> string \<Rightarrow> int \<Rightarrow> ResponseWriter" where
  "http_Error w msg code =
     (let h = Header_Del (WHeader w) ''Content-Length'';
          h = Header_Set h ''Content-Type'' ''text/plain; charset=utf-8'';
          h = Header_Set h ''X-Content-Type-Options'' ''nosniff'';
          w = WriteHeader (w\<lparr>WHeader := h\<rparr>) code
      in Write w (msg @ [CHR 0x0A]))"

section \<open>The director\<close>

text \<open>
  \<^verbatim>\<open>director(r)\<close> changes the request in place. The model returns the panic, if the
  closure panicked, the request as the closure left it, and the events in order.
\<close>

definition director :: "catalog \<Rightarrow> int \<Rightarrow> Request \<Rightarrow> panic option \<times> Request \<times> event list" where
  "director client rnd r =
     (let reqPath = Path (Url r);
          t = [Logged [''request Path:'', reqPath]]
      in if reqPath = '''' then (None, r, t)
      else
        let pathArray = Split reqPath CHR ''/'' in
        (case index pathArray 1 of
          Inl p \<Rightarrow> (Some p, r, t)
        | Inr serviceName \<Rightarrow>
            let t = t @ [Logged [''serviceName:'', serviceName], Lookup serviceName];
                (result, err) = client serviceName
            in if err \<noteq> None then
                 (case Error err of
                    Inl p \<Rightarrow> (Some p, r, t)
                  | Inr msg \<Rightarrow>
                      (None, r,
                       t @ [Logged [''reverseProxy failed'', ''query service instance error'', msg]]))
               else if length result = 0 then
                 (None, r,
                  t @ [Logged [''reverseProxy failed'', ''no such service instance'', serviceName]])
               else
                 (case slice_from pathArray 2 of
                    Inl p \<Rightarrow> (Some p, r, t)
                  | Inr rest \<Rightarrow>
                      let destPath = Join rest ''/'' in
                      (case go_rem rnd (int (length result)) of
                         Inl p \<Rightarrow> (Some p, r, t)
                       | Inr i \<Rightarrow>
                           (case index result i of
                              Inl p \<Rightarrow> (Some p, r, t)
                            | Inr tgt \<Rightarrow>
                                let t = t @ [Logged [''service id'', ServiceID tgt]];
                                    u = (Url r)\<lparr>Scheme := ''http'',
                                               Host := ServiceAddress tgt @ '':''
                                                         @ FormatInt (ServicePort tgt),
                                               Path := ''/'' @ destPath\<rparr>
                                in (None,
                                    r\<lparr>Url := u,
                                      ReqHeader :=
                                        Header_Set (ReqHeader r) ''X-Real-Ip'' (RemoteAddr r)\<rparr>,
                                    t))))))"

section \<open>The response hook\<close>

text \<open>The condition of the \<^verbatim>\<open>if\<close> in \<^verbatim>\<open>modifyFunc\<close>, as written.\<close>

definition statusCondition :: "int \<Rightarrow> bool" where
  "statusCondition sc \<longleftrightarrow> sc \<noteq> 200 \<or> sc \<noteq> 201 \<or> sc \<noteq> 203 \<or> sc \<noteq> 204"

text \<open>
  The body of that \<^verbatim>\<open>if\<close>. \<open>Inl e\<close> is \<^verbatim>\<open>return err\<close>, \<open>Inr resp\<close> the response as
  the branch leaves it.
\<close>

definition rewriteBranch :: "Response \<Rightarrow> string + Response" where
  "rewriteBranch resp =
     (case ReadAll (Body resp) of
        (oldPayload, Some e) \<Rightarrow> Inl e
      | (oldPayload, None) \<Rightarrow>
          let newPayload = '''' @ oldPayload
          in Inr (resp\<lparr>Body := NewBuffer newPayload,
                       ContentLength := int (length newPayload),
                       RespHeader := Header_Set (RespHeader resp) ''Content-Length''
                                       (FormatInt (int (length newPayload)))\<rparr>))"

definition modifyFunc :: "Response \<Rightarrow> string + Response" where
  "modifyFunc resp =
     (if statusCondition (StatusCode resp) then rewriteBranch resp else Inr resp)"

section \<open>The error hook\<close>

text \<open>
  \<^verbatim>\<open>errFunc(w, r, err)\<close>. The short declaration \<^verbatim>\<open>result, _, err := ...\<close> stands in the
  function body itself, so it declares \<^verbatim>\<open>result\<close> only and assigns to the parameter
  \<^verbatim>\<open>err\<close>: from there on \<^verbatim>\<open>err\<close> is the error of the registry call.
\<close>

definition errFunc ::
  "catalog \<Rightarrow> ResponseWriter \<Rightarrow> Request \<Rightarrow> error \<Rightarrow> panic option \<times> ResponseWriter \<times> event list" where
  "errFunc client w r err =
     (let reqPath = Path (Url r)
      in if reqPath = '''' then (None, w, [])
      else
        let pathArray = Split reqPath CHR ''/'' in
        (case index pathArray 1 of
          Inl p \<Rightarrow> (Some p, w, [])
        | Inr serviceName \<Rightarrow>
            let t = [Lookup serviceName];
                (result, err) = client serviceName
            in if err \<noteq> None then
                 (case Error err of
                    Inl p \<Rightarrow> (Some p, w, t)
                  | Inr msg \<Rightarrow>
                      (None, w,
                       t @ [Logged [''reverseProxy failed'', ''query service instance error'', msg]]))
               else if length result = 0 then
                 (None, http_Error w (serviceName @ '' Not Found'') 404, t)
               else
                 (case Error err of
                    Inl p \<Rightarrow> (Some p, w, t)
                  | Inr msg \<Rightarrow> (None, http_Error w ('''' @ msg) 500, t))))"

section \<open>The proxy and its transport\<close>

text \<open>
  The program hands the three closures to \<^verbatim>\<open>httputil.ReverseProxy\<close> together with an
  \<^verbatim>\<open>http.Transport\<close> on which no other protocol is registered. Both are library code.
  \<^verbatim>\<open>Transport.RoundTrip\<close> makes these checks, in this order, before it asks for a
  connection: for the schemes \<^verbatim>\<open>http\<close> and \<^verbatim>\<open>https\<close> every header field must have a
  valid name and valid values; any other scheme is refused; a method that is given must
  be a token; the URL must name a host. A request that passes is sent to that host.
\<close>

datatype refusal =
    InvalidHeaderField
  | UnsupportedProtocolScheme string
  | InvalidMethod string
  | NoHost

datatype attempt = Refused refusal | Dialed string

definition isTokenRune :: "char \<Rightarrow> bool" where
  "isTokenRune c \<longleftrightarrow>
     c \<in> set (''!#$%&*+-.^_|~'' @ [CHR 0x27, CHR 0x60] @ ''0123456789''
               @ ''abcdefghijklmnopqrstuvwxyz'' @ ''ABCDEFGHIJKLMNOPQRSTUVWXYZ'')"

definition validMethod :: "string \<Rightarrow> bool" where
  "validMethod m \<longleftrightarrow> m \<noteq> [] \<and> list_all isTokenRune m"

definition ValidHeaderFieldName :: "string \<Rightarrow> bool" where
  "ValidHeaderFieldName k \<longleftrightarrow> k \<noteq> [] \<and> list_all isTokenRune k"

text \<open>A value is valid when it has no control byte other than space and tab.\<close>

definition ValidHeaderFieldValue :: "string \<Rightarrow> bool" where
  "ValidHeaderFieldValue v \<longleftrightarrow>
     list_all (\<lambda>b. \<not> ((of_char b < (32::nat) \<or> of_char b = (127::nat))
                       \<and> \<not> (b = CHR '' '' \<or> b = CHR 0x09))) v"

definition invalidField :: "Header \<Rightarrow> string \<Rightarrow> bool" where
  "invalidField h k \<longleftrightarrow>
     (case h k of
        None \<Rightarrow> False
      | Some vv \<Rightarrow> \<not> ValidHeaderFieldName k \<or> \<not> list_all ValidHeaderFieldValue vv)"

definition RoundTrip :: "Request \<Rightarrow> attempt" where
  "RoundTrip req =
     (let scheme = Scheme (Url req);
          isHTTP = (scheme = ''http'' \<or> scheme = ''https'')
      in if isHTTP \<and> (\<exists>k. invalidField (ReqHeader req) k) then Refused InvalidHeaderField
         else if \<not> isHTTP then Refused (UnsupportedProtocolScheme scheme)
         else if Method req \<noteq> '''' \<and> \<not> validMethod (Method req) then
           Refused (InvalidMethod (Method req))
         else if Host (Url req) = '''' then Refused NoHost
         else Dialed (Host (Url req)))"

text \<open>
  \<^verbatim>\<open>ReverseProxy.ServeHTTP\<close>, up to the exchange: it runs the director on its copy of the
  inbound request and calls \<^verbatim>\<open>RoundTrip\<close> on the request as the director left it; the
  director has no way to stop that call other than a panic. The header fields the proxy
  itself edits in between (hop-by-hop fields, \<^verbatim>\<open>X-Forwarded-For\<close>) are left out.
\<close>

definition ServeHTTP :: "catalog \<Rightarrow> int \<Rightarrow> Request \<Rightarrow> panic + attempt" where
  "ServeHTTP client rnd r =
     (case director client rnd r of
        (Some p, outreq, t) \<Rightarrow> Inl p
      | (None, outreq, t) \<Rightarrow> Inr (RoundTrip outreq))"

text \<open>Whether a backend exchange is attempted: the transport went on to a host.\<close>

fun exchange_attempted :: "panic + attempt \<Rightarrow> bool" where
  "exchange_attempted (Inr (Dialed host)) = True"
| "exchange_attempted (Inr (Refused e)) = False"
| "exchange_attempted (Inl p) = False"

section \<open>Concrete inputs\<close>

text \<open>
  The scenario of the specification: one instance \<^verbatim>\<open>{10.0.0.5, 9090, "i1"}\<close> registered
  for the service \<^verbatim>\<open>orders\<close>, no instance for any other name, and a request as the
  server hands it to the proxy (a path, no scheme, no host).
\<close>

definition example_instance :: CatalogService where
  "example_instance = \<lparr>ServiceID = ''i1'', ServiceAddress = ''10.0.0.5'', ServicePort = 9090\<rparr>"

definition example_catalog :: catalog where
  "example_catalog name = (if name = ''orders'' then ([example_instance], None) else ([], None))"

definition unreachable_catalog :: catalog where
  "unreachable_catalog name = ([], Some ''connection refused'')"

definition example_request :: "string \<Rightarrow> Request" where
  "example_request p =
     \<lparr>Method = ''GET'', Url = \<lparr>Scheme = '''', Host = '''', Path = p\<rparr>,
      ReqHeader = Map.empty, RemoteAddr = ''192.0.2.7:51000''\<rparr>"

text \<open>
  A request whose request line carries an absolute URL,
  \<^verbatim>\<open>GET http://10.0.0.5:9090/orders/123/items HTTP/1.1\<close>: the server hands it to the
  proxy with the scheme and the host of that URL.
\<close>

definition absolute_request :: Request where
  "absolute_request =
     \<lparr>Method = ''GET'',
      Url = \<lparr>Scheme = ''http'', Host = ''10.0.0.5:9090'', Path = ''/orders/123/items''\<rparr>,
      ReqHeader = Map.empty, RemoteAddr = ''192.0.2.7:51000''\<rparr>"

definition fresh_writer :: ResponseWriter where
  "fresh_writer = \<lparr>WHeader = Map.empty, Status = None, Written = ''''\<rparr>"

definition example_response :: "int \<Rightarrow> Response" where
  "example_response sc =
     \<lparr>StatusCode = sc, Body = Reader ''ok'' None, ContentLength = 2, RespHeader = Map.empty\<rparr>"

text \<open>The registry calls among the events, in order.\<close>

fun lookups :: "event list \<Rightarrow> string list" where
  "lookups [] = []"
| "lookups (Lookup name # es) = name # lookups es"
| "lookups (Logged kv # es) = lookups es"

text \<open>The number a string of decimal digits denotes, to read a formatted length back.\<close>

definition decimal :: "string \<Rightarrow> nat" where
  "decimal s = foldl (\<lambda>a c. 10 * a + (of_char c - 48)) 0 s"

section \<open>Splitting and joining\<close>

lemma Split_not_Nil: "Split s c \<noteq> []"
  by (induction s) (auto split: list.splits)

lemma Split_no_sep: "c \<notin> set s \<Longrightarrow> Split s c = [s]"
  by (induction s) auto

lemma Split_first_sep: "c \<notin> set a \<Longrightarrow> Split (a @ c # s) c = a # Split s c"
  by (induction a) auto

lemma length_Split_sep:
  assumes "c \<in> set s"
  shows "2 \<le> length (Split s c)"
proof -
  from assms obtain a b where s: "s = a @ c # b" and a: "c \<notin> set a"
    by (auto dest: split_list_first)
  obtain y ys where "Split b c = y # ys"
    using Split_not_Nil [of b c] by (cases "Split b c") auto
  with s a show ?thesis
    by (simp add: Split_first_sep)
qed

lemma Join_Cons_Cons: "Join ((x # y) # ys) sep = x # Join (y # ys) sep"
  by (cases ys) auto

lemma Join_Split: "Join (Split s c) [c] = s"
proof (induction s)
  case Nil
  show ?case by simp
next
  case (Cons x xs)
  obtain y ys where ys: "Split xs c = y # ys"
    using Split_not_Nil [of xs c] by (cases "Split xs c") auto
  with Cons show ?case
    by (auto simp: Join_Cons_Cons)
qed

section \<open>Indexing and the remainder\<close>

lemma go_rem_nonneg: "0 \<le> a \<Longrightarrow> 0 < b \<Longrightarrow> go_rem a b = Inr (a mod b)"
  by (cases "a = 0") (auto simp: go_rem_def)

lemma go_rem_one: "go_rem a 1 = Inr 0"
  by (simp add: go_rem_def)

lemma index_go_rem:
  assumes "0 \<le> rnd" and "result \<noteq> []"
  shows "\<exists>i tgt. go_rem rnd (int (length result)) = Inr i \<and> index result i = Inr tgt
           \<and> tgt \<in> set result"
proof -
  let ?n = "int (length result)"
  from assms have n: "0 < ?n" by simp
  with assms have "0 \<le> rnd mod ?n" and "rnd mod ?n < ?n"
    by simp_all
  moreover have "go_rem rnd ?n = Inr (rnd mod ?n)"
    using assms n by (simp add: go_rem_nonneg)
  ultimately show ?thesis
    by (auto simp: index_def nat_less_iff)
qed

lemma index_second: "index (a # b # xs) 1 = Inr b"
  by (simp add: index_def)

lemma index_singleton: "index [a] 1 = Inl (IndexOutOfRange 1 1)"
  by (simp add: index_def)

lemma index_Inr_length: "index xs 1 = Inr b \<Longrightarrow> 2 \<le> length xs"
  by (auto simp: index_def split: if_splits)

lemma lookup_path_nonempty:
  assumes "index (Split (Path (Url r)) CHR ''/'') 1 = Inr svc"
  shows "Path (Url r) \<noteq> ''''"
  using assms by (auto simp: index_def)

section \<open>Routing\<close>

text \<open>
  C1. For a request whose path is \<^verbatim>\<open>/{svc}/{rest...}\<close>, when the registry lookup for
  \<open>svc\<close> succeeds with at least one instance (and \<^verbatim>\<open>rand.Int()\<close> returns a non-negative
  number, as it is documented to), the director returns normally and leaves the request
  with scheme \<^verbatim>\<open>http\<close>, with host \<^verbatim>\<open>address:port\<close> of one of the returned instances,
  and with path \<^verbatim>\<open>/\<close> followed by the path segments after \<open>svc\<close> rejoined with
  \<^verbatim>\<open>/\<close>, which is \<^verbatim>\<open>/{rest...}\<close>.
\<close>

theorem director_routes:
  assumes path: "Path (Url r) = ''/'' @ svc @ ''/'' @ rest"
    and svc: "CHR ''/'' \<notin> set svc"
    and found: "client svc = (result, None)"
    and some: "result \<noteq> []"
    and rnd: "0 \<le> rnd"
  shows "\<exists>r' t tgt. director client rnd r = (None, r', t)
           \<and> Scheme (Url r') = ''http''
           \<and> tgt \<in> set result
           \<and> Host (Url r') = ServiceAddress tgt @ '':'' @ FormatInt (ServicePort tgt)
           \<and> Path (Url r') = ''/'' @ Join (drop 2 (Split (Path (Url r)) CHR ''/'')) ''/''
           \<and> Path (Url r') = ''/'' @ rest"
proof -
  have split: "Split (Path (Url r)) CHR ''/'' = [] # svc # Split rest CHR ''/''"
    using Split_first_sep [of "CHR ''/''" "[]"] Split_first_sep [OF svc]
    by (simp add: path)
  have join: "Join (Split rest CHR ''/'') ''/'' = rest"
    by (rule Join_Split)
  from index_go_rem [OF rnd some] obtain i tgt where tgt: "tgt \<in> set result"
    and rem: "go_rem rnd (int (length result)) = Inr i"
    and sel: "index result i = Inr tgt"
    by blast
  have nonempty: "Path (Url r) \<noteq> ''''"
    by (simp add: path)
  show ?thesis
    using tgt some nonempty
    by (auto simp: director_def Let_def split index_second slice_from_def found rem sel join)
qed

text \<open>
  The scenario of the specification: \<^verbatim>\<open>GET /orders/123/items\<close> with the single instance
  \<^verbatim>\<open>{10.0.0.5, 9090, "i1"}\<close> is forwarded to \<^verbatim>\<open>http://10.0.0.5:9090/123/items\<close>.
\<close>

theorem director_routes_witness:
  "Url (fst (snd (director example_catalog 7 (example_request ''/orders/123/items''))))
     = \<lparr>Scheme = ''http'', Host = ''10.0.0.5:9090'', Path = ''/123/items''\<rparr>"
proof -
  let ?r = "example_request ''/orders/123/items''"
  have fmt: "FormatInt 9090 = ''9090''"
    by (simp add: FormatInt_def utoa.simps digit_def)
  have path: "Path (Url ?r) = ''/'' @ ''orders'' @ ''/'' @ ''123/items''"
    by (simp add: example_request_def)
  have svc: "CHR ''/'' \<notin> set ''orders''"
    by simp
  have found: "example_catalog ''orders'' = ([example_instance], None)"
    by (simp add: example_catalog_def)
  have some: "[example_instance] \<noteq> []"
    by simp
  have rnd: "(0::int) \<le> 7"
    by simp
  from director_routes [of ?r "''orders''" "''123/items''" example_catalog "[example_instance]" 7,
      OF path svc found some rnd]
  obtain r' t tgt where run: "director example_catalog 7 ?r = (None, r', t)"
    and scheme: "Scheme (Url r') = ''http''"
    and tgt: "tgt \<in> set [example_instance]"
    and host: "Host (Url r') = ServiceAddress tgt @ '':'' @ FormatInt (ServicePort tgt)"
    and dest: "Path (Url r') = ''/'' @ ''123/items''"
    by (elim exE conjE)
  from tgt have "tgt = example_instance"
    by simp
  with host have "Host (Url r') = ''10.0.0.5:9090''"
    by (simp add: example_instance_def fmt)
  with scheme dest have "Url r' = \<lparr>Scheme = ''http'', Host = ''10.0.0.5:9090'', Path = ''/123/items''\<rparr>"
    by (cases "Url r'") simp
  then show ?thesis
    by (simp only: run fst_conv snd_conv)
qed

section \<open>The error hook: service without instances\<close>

text \<open>
  C2. When the path of the failed request names a service \<open>svc\<close> (the second element of
  the path split on \<^verbatim>\<open>/\<close>) and the registry re-query succeeds with zero instances, the
  error hook returns normally, having written status 404 and the body
  \<^verbatim>\<open>svc Not Found\<close> followed by the newline \<^verbatim>\<open>http.Error\<close> adds. The writer is the one
  the proxy passes to its error handler: nothing has been written to it yet.
\<close>

theorem errFunc_not_found:
  assumes svc: "index (Split (Path (Url r)) CHR ''/'') 1 = Inr svc"
    and empty: "client svc = ([], None)"
    and fresh: "Status w = None"
  shows "\<exists>w'. errFunc client w r err = (None, w', [Lookup svc])
           \<and> Status w' = Some 404
           \<and> Written w' = Written w @ svc @ '' Not Found'' @ [CHR 0x0A]"
proof -
  have "Path (Url r) \<noteq> ''''"
    using svc by (rule lookup_path_nonempty)
  then show ?thesis
    using fresh
    by (simp add: errFunc_def Let_def svc empty http_Error_def Write_def WriteHeader_def)
qed

theorem errFunc_not_found_witness:
  "errFunc example_catalog fresh_writer (example_request ''/billing/123'')
     (Some ''unsupported protocol scheme'')
     = (None,
        \<lparr>WHeader = [''Content-Type'' \<mapsto> [''text/plain; charset=utf-8''],
                    ''X-Content-Type-Options'' \<mapsto> [''nosniff'']],
         Status = Some 404,
         Written = ''billing Not Found'' @ [CHR 0x0A]\<rparr>, [Lookup ''billing''])"
proof -
  have "index (Split (Path (Url (example_request ''/billing/123''))) CHR ''/'') 1 = Inr ''billing''"
    by (simp add: example_request_def index_def)
  moreover have "example_catalog ''billing'' = ([], None)"
    by (simp add: example_catalog_def)
  moreover have "Status fresh_writer = None"
    by (simp add: fresh_writer_def)
  ultimately obtain w' where
    "errFunc example_catalog fresh_writer (example_request ''/billing/123'')
       (Some ''unsupported protocol scheme'') = (None, w', [Lookup ''billing''])"
    "Status w' = Some 404"
    "Written w' = Written fresh_writer @ ''billing'' @ '' Not Found'' @ [CHR 0x0A]"
    using errFunc_not_found [of "example_request ''/billing/123''" "''billing''"
        example_catalog fresh_writer]
    by blast
  then show ?thesis
    by (simp add: errFunc_def example_request_def example_catalog_def fresh_writer_def index_def
          http_Error_def Write_def WriteHeader_def Header_Set_def Header_Del_def Let_def)
qed

section \<open>The error hook: service with instances\<close>

text \<open>
  Whenever the re-query succeeds with at least one instance, the variable \<^verbatim>\<open>err\<close> holds
  the \<^verbatim>\<open>nil\<close> error of the re-query when \<^verbatim>\<open>err.Error()\<close> is evaluated for the 500
  response: the hook panics and writes nothing, whatever the exchange error was.
\<close>

lemma errFunc_instances_panic:
  assumes svc: "index (Split (Path (Url r)) CHR ''/'') 1 = Inr svc"
    and found: "client svc = (result, None)"
    and some: "result \<noteq> []"
  shows "errFunc client w r err = (Some NilDereference, w, [Lookup svc])"
proof -
  have "Path (Url r) \<noteq> ''''"
    using svc by (rule lookup_path_nonempty)
  then show ?thesis
    using some by (simp add: errFunc_def Let_def svc found Error_def)
qed

text \<open>
  C3. The claim is that a failed exchange whose re-query finds instances is answered
  with status 500 and the text of the exchange error. At the request
  \<^verbatim>\<open>GET /orders/123/items\<close>, with one instance registered for \<^verbatim>\<open>orders\<close> and the
  exchange error \<^verbatim>\<open>dial tcp 10.0.0.5:9090: connect: connection refused\<close>, the hook
  panics with a nil dereference instead and the writer is untouched: no status, no body.
\<close>

theorem errFunc_transport_failure_panics:
  "errFunc example_catalog fresh_writer (example_request ''/orders/123/items'')
     (Some ''dial tcp 10.0.0.5:9090: connect: connection refused'')
   = (Some NilDereference, fresh_writer, [Lookup ''orders''])"
  by (simp add: errFunc_def Let_def example_request_def example_catalog_def index_def Error_def)

section \<open>The response hook: the status check\<close>

text \<open>
  C4. The status-code condition of the response hook holds for every status code, so
  for every response the hook does what its rewrite branch does, for status 200 as
  for any other.
\<close>

theorem statusCondition_always:
  "statusCondition sc \<and> modifyFunc resp = rewriteBranch resp"
proof -
  have "\<And>c. statusCondition c"
    by (simp add: statusCondition_def)
  then show ?thesis
    by (simp add: modifyFunc_def)
qed

theorem statusCondition_always_witness:
  "statusCondition 200 \<and> statusCondition 204
   \<and> modifyFunc (example_response 200)
       = Inr \<lparr>StatusCode = 200, Body = Reader ''ok'' None, ContentLength = 2,
              RespHeader = [''Content-Length'' \<mapsto> [''2'']]\<rparr>"
proof -
  have "FormatInt 2 = ''2''"
    by (simp add: FormatInt_def utoa.simps digit_def)
  then have "rewriteBranch (example_response 200)
       = Inr \<lparr>StatusCode = 200, Body = Reader ''ok'' None, ContentLength = 2,
              RespHeader = [''Content-Length'' \<mapsto> [''2'']]\<rparr>"
    by (simp add: rewriteBranch_def example_response_def NewBuffer_def Header_Set_def)
  then show ?thesis
    using statusCondition_always [of 200 "example_response 200"]
      statusCondition_always [of 204 "example_response 200"]
    by simp
qed

section \<open>The director: requests it leaves alone\<close>

text \<open>
  C5. For a request whose path is the empty string the director returns at once: it
  logs the path, makes no registry call, and the request (scheme, host, path, headers
  and all else) is the one it was given.
\<close>

theorem director_empty_path:
  assumes "Path (Url r) = ''''"
  shows "director client rnd r = (None, r, [Logged [''request Path:'', '''']])
         \<and> lookups (snd (snd (director client rnd r))) = []"
  using assms by (simp add: director_def)

theorem director_empty_path_witness:
  "director example_catalog 7 (example_request '''')
     = (None, example_request '''', [Logged [''request Path:'', '''']])
   \<and> lookups (snd (snd (director example_catalog 7 (example_request '''')))) = []"
proof -
  have "Path (Url (example_request '''')) = ''''"
    by (simp add: example_request_def)
  then show ?thesis
    by (rule director_empty_path)
qed

section \<open>The director: a failing registry\<close>

lemma validMethod_GET: "validMethod ''GET''"
  by (simp add: validMethod_def isTokenRune_def)

lemma RoundTrip_refuses:
  assumes "(Scheme (Url req) \<noteq> ''http'' \<and> Scheme (Url req) \<noteq> ''https'') \<or> Host (Url req) = ''''"
  shows "\<not> exchange_attempted (Inr (RoundTrip req))"
  using assms by (auto simp: RoundTrip_def Let_def)

text \<open>
  C6, as claimed: when the registry lookup of the director fails, the request is left
  unmodified and no backend exchange is attempted. The director can only return; the
  proxy then calls the transport on the unmodified request. For a request that arrived
  with an absolute URL, \<^verbatim>\<open>GET http://10.0.0.5:9090/orders/123/items\<close>, and a registry
  that cannot be reached, the request is unmodified and the transport goes on to the
  host \<^verbatim>\<open>10.0.0.5:9090\<close>: an exchange is attempted.
\<close>

theorem registry_error_counterexample:
  "\<not> (fst (snd (director unreachable_catalog 7 absolute_request)) = absolute_request
       \<and> \<not> exchange_attempted (ServeHTTP unreachable_catalog 7 absolute_request))"
proof -
  have "director unreachable_catalog 7 absolute_request =
          (None, absolute_request,
           [Logged [''request Path:'', ''/orders/123/items''],
            Logged [''serviceName:'', ''orders''],
            Lookup ''orders'',
            Logged [''reverseProxy failed'', ''query service instance error'',
                    ''connection refused'']])"
    by (simp add: director_def Let_def absolute_request_def unreachable_catalog_def index_def
          Error_def)
  moreover have "RoundTrip absolute_request = Dialed ''10.0.0.5:9090''"
    by (simp add: RoundTrip_def Let_def absolute_request_def invalidField_def validMethod_GET)
  ultimately show ?thesis
    by (simp add: ServeHTTP_def)
qed

text \<open>
  C6, amended. When the registry lookup of the director fails, the director logs the
  failure and returns: the request is the one it was given and no instance is selected.
  The proxy calls the transport on that unmodified request, and no backend exchange is
  attempted whenever the URL of the request has a scheme other than \<^verbatim>\<open>http\<close> and
  \<^verbatim>\<open>https\<close> or has no host; that is so for every request that arrives with a path
  only, whose URL has neither scheme nor host.
\<close>

theorem director_registry_error:
  assumes svc: "index (Split (Path (Url r)) CHR ''/'') 1 = Inr svc"
    and failed: "client svc = (result, Some e)"
  shows "director client rnd r =
           (None, r,
            [Logged [''request Path:'', Path (Url r)],
             Logged [''serviceName:'', svc],
             Lookup svc,
             Logged [''reverseProxy failed'', ''query service instance error'', e]])
         \<and> ServeHTTP client rnd r = Inr (RoundTrip r)
         \<and> ((Scheme (Url r) \<noteq> ''http'' \<and> Scheme (Url r) \<noteq> ''https'') \<or> Host (Url r) = ''''
              \<longrightarrow> \<not> exchange_attempted (ServeHTTP client rnd r))"
proof -
  have "Path (Url r) \<noteq> ''''"
    using svc by (rule lookup_path_nonempty)
  then have run: "director client rnd r =
           (None, r,
            [Logged [''request Path:'', Path (Url r)],
             Logged [''serviceName:'', svc],
             Lookup svc,
             Logged [''reverseProxy failed'', ''query service instance error'', e]])"
    by (simp add: director_def Let_def svc failed Error_def)
  then have serve: "ServeHTTP client rnd r = Inr (RoundTrip r)"
    by (simp add: ServeHTTP_def)
  show ?thesis
    using run serve RoundTrip_refuses [of r] by simp
qed

theorem director_registry_error_witness:
  "director unreachable_catalog 7 (example_request ''/orders/123/items'') =
     (None, example_request ''/orders/123/items'',
      [Logged [''request Path:'', ''/orders/123/items''],
       Logged [''serviceName:'', ''orders''],
       Lookup ''orders'',
       Logged [''reverseProxy failed'', ''query service instance error'', ''connection refused'']])
   \<and> ServeHTTP unreachable_catalog 7 (example_request ''/orders/123/items'')
       = Inr (Refused (UnsupportedProtocolScheme ''''))
   \<and> \<not> exchange_attempted (ServeHTTP unreachable_catalog 7 (example_request ''/orders/123/items''))"
proof -
  have "index (Split (Path (Url (example_request ''/orders/123/items''))) CHR ''/'') 1 = Inr ''orders''"
    by (simp add: example_request_def index_def)
  moreover have "unreachable_catalog ''orders'' = ([], Some ''connection refused'')"
    by (simp add: unreachable_catalog_def)
  moreover have "RoundTrip (example_request ''/orders/123/items'')
                   = Refused (UnsupportedProtocolScheme '''')"
    by (simp add: RoundTrip_def Let_def example_request_def)
  ultimately show ?thesis
    using director_registry_error [of "example_request ''/orders/123/items''" "''orders''"
        unreachable_catalog "[]" "''connection refused''" 7]
    by (simp add: example_request_def)
qed

section \<open>Decimal rendering\<close>

lemma digit_value: "d < 10 \<Longrightarrow> of_char (digit d) - 48 = d"
proof -
  assume "d < 10"
  then have "d \<in> {0, 1, 2, 3, 4, 5, 6, 7, 8, 9}"
    by auto
  then show ?thesis
    by (auto simp: digit_def)
qed

lemma decimal_utoa: "decimal (utoa n) = n"
proof (induction n rule: utoa.induct)
  case (1 n)
  show ?case
  proof (cases "n < 10")
    case True
    then show ?thesis
      by (simp add: utoa.simps [of n] decimal_def digit_value)
  next
    case False
    with 1 have "decimal (utoa (n div 10)) = n div 10"
      by simp
    with False show ?thesis
      by (simp add: utoa.simps [of n] decimal_def digit_value)
  qed
qed

section \<open>What both closures do once the service name is extracted\<close>

lemma director_lookups:
  assumes svc: "index (Split (Path (Url r)) CHR ''/'') 1 = Inr svc"
  shows "lookups (snd (snd (director client rnd r))) = [svc]"
proof -
  have nonempty: "Path (Url r) \<noteq> ''''"
    using svc by (rule lookup_path_nonempty)
  obtain result e where c: "client svc = (result, e)"
    by (cases "client svc")
  show ?thesis
    using nonempty
    by (auto simp: director_def Let_def svc c Error_def split: sum.splits option.splits)
qed

lemma errFunc_lookups:
  assumes svc: "index (Split (Path (Url r)) CHR ''/'') 1 = Inr svc"
  shows "lookups (snd (snd (errFunc client w r err))) = [svc]"
proof -
  have nonempty: "Path (Url r) \<noteq> ''''"
    using svc by (rule lookup_path_nonempty)
  obtain result e where c: "client svc = (result, e)"
    by (cases "client svc")
  show ?thesis
    using nonempty
    by (auto simp: errFunc_def Let_def svc c Error_def split: sum.splits option.splits)
qed

lemma director_unroutable:
  assumes svc: "index (Split (Path (Url r)) CHR ''/'') 1 = Inr svc"
    and none: "snd (client svc) \<noteq> None \<or> fst (client svc) = []"
  shows "fst (director client rnd r) = None \<and> fst (snd (director client rnd r)) = r"
proof -
  have nonempty: "Path (Url r) \<noteq> ''''"
    using svc by (rule lookup_path_nonempty)
  obtain result e where c: "client svc = (result, e)"
    by (cases "client svc")
  show ?thesis
    using nonempty none
    by (auto simp: director_def Let_def svc c Error_def)
qed

section \<open>Selection among the instances\<close>

text \<open>
  C7. When the registry returns exactly one instance, the selection expression
  \<^verbatim>\<open>rand.Int() % len(result)\<close> is 0 for every value of the random source, negative
  ones included, and the director routes the request to that instance: the outcome is
  one and the same for all random values, so repeated identical requests go to the
  same destination.
\<close>

theorem single_instance_selection:
  assumes svc: "index (Split (Path (Url r)) CHR ''/'') 1 = Inr svc"
    and single: "client svc = ([inst], None)"
  shows "go_rem rnd (int (length [inst])) = Inr 0
         \<and> director client rnd r =
             (None,
              r\<lparr>Url := (Url r)\<lparr>Scheme := ''http'',
                                Host := ServiceAddress inst @ '':'' @ FormatInt (ServicePort inst),
                                Path := ''/'' @ Join (drop 2 (Split (Path (Url r)) CHR ''/'')) ''/''\<rparr>,
                ReqHeader := Header_Set (ReqHeader r) ''X-Real-Ip'' (RemoteAddr r)\<rparr>,
              [Logged [''request Path:'', Path (Url r)],
               Logged [''serviceName:'', svc],
               Lookup svc,
               Logged [''service id'', ServiceID inst]])
         \<and> director client rnd' r = director client rnd r"
proof -
  have nonempty: "Path (Url r) \<noteq> ''''"
    using svc by (rule lookup_path_nonempty)
  have len: "2 \<le> length (Split (Path (Url r)) CHR ''/'')"
    using svc by (rule index_Inr_length)
  have sel: "index [inst] 0 = Inr inst"
    by (simp add: index_def)
  have run: "\<And>k. director client k r =
             (None,
              r\<lparr>Url := (Url r)\<lparr>Scheme := ''http'',
                                Host := ServiceAddress inst @ '':'' @ FormatInt (ServicePort inst),
                                Path := ''/'' @ Join (drop 2 (Split (Path (Url r)) CHR ''/'')) ''/''\<rparr>,
                ReqHeader := Header_Set (ReqHeader r) ''X-Real-Ip'' (RemoteAddr r)\<rparr>,
              [Logged [''request Path:'', Path (Url r)],
               Logged [''serviceName:'', svc],
               Lookup svc,
               Logged [''service id'', ServiceID inst]])"
    using nonempty len
    by (simp add: director_def Let_def svc single slice_from_def go_rem_one sel)
  show ?thesis
    by (simp add: run go_rem_one)
qed

theorem single_instance_selection_witness:
  "go_rem 12345 (int (length [example_instance])) = Inr 0
   \<and> director example_catalog (- 3) (example_request ''/orders/123/items'')
       = director example_catalog 12345 (example_request ''/orders/123/items'')"
proof -
  have "index (Split (Path (Url (example_request ''/orders/123/items''))) CHR ''/'') 1 = Inr ''orders''"
    by (simp add: example_request_def index_def)
  moreover have "example_catalog ''orders'' = ([example_instance], None)"
    by (simp add: example_catalog_def)
  ultimately show ?thesis
    using single_instance_selection [of "example_request ''/orders/123/items''" "''orders''"
        example_catalog example_instance 12345 "- 3"]
    by simp
qed

section \<open>The root path\<close>

text \<open>
  C8, as claimed: a request for the root path \<^verbatim>\<open>/\<close> is left unmodified and no registry
  lookup is made. The director tests the path against the empty string only. For
  \<^verbatim>\<open>/\<close> the split gives two empty segments, the service name is the empty string and
  the registry is asked for it: with the registry of the scenario the request stays as it
  was, but the lookup has been made.
\<close>

theorem root_path_counterexample:
  "\<not> (fst (snd (director example_catalog 7 (example_request ''/''))) = example_request ''/''
       \<and> lookups (snd (snd (director example_catalog 7 (example_request ''/'')))) = [])"
  by (simp add: director_def Let_def example_request_def example_catalog_def index_def)

text \<open>
  C8, amended. For a request whose path is exactly \<^verbatim>\<open>/\<close> the director takes the empty
  string as the service name and makes exactly one registry lookup, for that name;
  whenever the lookup fails or returns no instance, the director returns normally and
  the request is the one it was given (a no-op passthrough).
\<close>

theorem director_root_path:
  assumes root: "Path (Url r) = ''/''"
  shows "lookups (snd (snd (director client rnd r))) = ['''']
         \<and> (snd (client '''') \<noteq> None \<or> fst (client '''') = []
              \<longrightarrow> fst (director client rnd r) = None \<and> fst (snd (director client rnd r)) = r)"
proof -
  have svc: "index (Split (Path (Url r)) CHR ''/'') 1 = Inr ''''"
    by (simp add: root index_def)
  show ?thesis
    using director_lookups [OF svc] director_unroutable [OF svc]
    by blast
qed

theorem director_root_path_witness:
  "lookups (snd (snd (director example_catalog 7 (example_request ''/'')))) = ['''']
   \<and> director example_catalog 7 (example_request ''/'')
       = (None, example_request ''/'',
          [Logged [''request Path:'', ''/''], Logged [''serviceName:'', ''''], Lookup '''',
           Logged [''reverseProxy failed'', ''no such service instance'', '''']])"
proof -
  have "Path (Url (example_request ''/'')) = ''/''"
    by (simp add: example_request_def)
  from director_root_path [OF this, of example_catalog 7]
  have "lookups (snd (snd (director example_catalog 7 (example_request ''/'')))) = ['''']"
    by simp
  then show ?thesis
    by (simp add: director_def Let_def example_request_def example_catalog_def index_def)
qed

section \<open>The access to the second path segment\<close>

text \<open>
  C9. After the test for the empty path, the director and the error hook both read
  \<^verbatim>\<open>pathArray[1]\<close> with no test of the length. For a non-empty path that contains a
  \<^verbatim>\<open>/\<close> the access is in bounds: it yields the service name, and both closures go on
  to the registry call for it. For a non-empty path without \<^verbatim>\<open>/\<close> the split is the
  one-element slice holding the path, the access is out of bounds, and both closures
  panic there, before any registry call and any write.
\<close>

theorem second_element_access:
  assumes nonempty: "Path (Url r) \<noteq> ''''"
  shows "(CHR ''/'' \<in> set (Path (Url r)) \<longrightarrow>
            (\<exists>svc. index (Split (Path (Url r)) CHR ''/'') 1 = Inr svc
                   \<and> lookups (snd (snd (director client rnd r))) = [svc]
                   \<and> lookups (snd (snd (errFunc client w r err))) = [svc]))
         \<and> (CHR ''/'' \<notin> set (Path (Url r)) \<longrightarrow>
              Split (Path (Url r)) CHR ''/'' = [Path (Url r)]
              \<and> index (Split (Path (Url r)) CHR ''/'') 1 = Inl (IndexOutOfRange 1 1)
              \<and> director client rnd r =
                  (Some (IndexOutOfRange 1 1), r, [Logged [''request Path:'', Path (Url r)]])
              \<and> errFunc client w r err = (Some (IndexOutOfRange 1 1), w, []))"
proof (intro conjI impI)
  assume "CHR ''/'' \<in> set (Path (Url r))"
  then have "2 \<le> length (Split (Path (Url r)) CHR ''/'')"
    by (rule length_Split_sep)
  then obtain a svc xs where split: "Split (Path (Url r)) CHR ''/'' = a # svc # xs"
    by (cases "Split (Path (Url r)) CHR ''/''" rule: list.exhaust; simp)
       (metis Suc_le_length_iff One_nat_def)
  have "index (Split (Path (Url r)) CHR ''/'') 1 = Inr svc"
    by (simp add: split index_second)
  moreover from this have "lookups (snd (snd (director client rnd r))) = [svc]"
    by (rule director_lookups)
  moreover from \<open>index (Split (Path (Url r)) CHR ''/'') 1 = Inr svc\<close>
  have "lookups (snd (snd (errFunc client w r err))) = [svc]"
    by (rule errFunc_lookups)
  ultimately show "\<exists>svc. index (Split (Path (Url r)) CHR ''/'') 1 = Inr svc
                   \<and> lookups (snd (snd (director client rnd r))) = [svc]
                   \<and> lookups (snd (snd (errFunc client w r err))) = [svc]"
    by blast
next
  assume no: "CHR ''/'' \<notin> set (Path (Url r))"
  then show single: "Split (Path (Url r)) CHR ''/'' = [Path (Url r)]"
    by (rule Split_no_sep)
  then show "index (Split (Path (Url r)) CHR ''/'') 1 = Inl (IndexOutOfRange 1 1)"
    by (simp add: index_singleton)
  from single nonempty show "director client rnd r =
      (Some (IndexOutOfRange 1 1), r, [Logged [''request Path:'', Path (Url r)]])"
    by (simp add: director_def Let_def index_singleton)
  from single nonempty show "errFunc client w r err = (Some (IndexOutOfRange 1 1), w, [])"
    by (simp add: errFunc_def Let_def index_singleton)
qed

theorem second_element_access_witness:
  "index (Split ''/orders'' CHR ''/'') 1 = Inr ''orders''
   \<and> lookups (snd (snd (director example_catalog 7 (example_request ''/orders'')))) = [''orders'']
   \<and> Split ''*'' CHR ''/'' = [''*'']
   \<and> director example_catalog 7 (example_request ''*'')
       = (Some (IndexOutOfRange 1 1), example_request ''*'', [Logged [''request Path:'', ''*'']])
   \<and> errFunc example_catalog fresh_writer (example_request ''*'') (Some ''no Host in request URL'')
       = (Some (IndexOutOfRange 1 1), fresh_writer, [])"
proof -
  have "Path (Url (example_request ''/orders'')) \<noteq> ''''"
    and "Path (Url (example_request ''*'')) \<noteq> ''''"
    by (simp_all add: example_request_def)
  then show ?thesis
    using second_element_access [of "example_request ''/orders''" example_catalog 7 fresh_writer None]
      second_element_access [of "example_request ''*''" example_catalog 7 fresh_writer
        "Some ''no Host in request URL''"]
    by (simp add: example_request_def index_def)
qed

section \<open>The response hook: the rewrite\<close>

text \<open>
  C10. For a response whose body reads without error, the response hook returns
  without error, the body is the one that was read (the same bytes, nothing appended),
  \<^verbatim>\<open>ContentLength\<close> is the number of bytes of the body, and the header
  \<^verbatim>\<open>Content-Length\<close> is the decimal text of that number. Nothing else changes.
\<close>

theorem modifyFunc_identity:
  assumes "ReadAll (Body resp) = (payload, None)"
  shows "modifyFunc resp =
           Inr (resp\<lparr>ContentLength := int (length payload),
                     RespHeader := (RespHeader resp)
                       (''Content-Length'' \<mapsto> [FormatInt (int (length payload))])\<rparr>)
         \<and> decimal (FormatInt (int (length payload))) = length payload"
proof -
  from assms have body: "Body resp = Reader payload None"
    by (cases "Body resp") simp
  have same: "resp\<lparr>Body := Reader payload None\<rparr> = resp"
    by (simp add: body [symmetric])
  have "modifyFunc resp =
           Inr ((resp\<lparr>Body := Reader payload None\<rparr>)
                  \<lparr>ContentLength := int (length payload),
                   RespHeader := (RespHeader resp)
                     (''Content-Length'' \<mapsto> [FormatInt (int (length payload))])\<rparr>)"
    by (simp add: modifyFunc_def statusCondition_def rewriteBranch_def body NewBuffer_def
          Header_Set_def)
  then have "modifyFunc resp =
           Inr (resp\<lparr>ContentLength := int (length payload),
                     RespHeader := (RespHeader resp)
                       (''Content-Length'' \<mapsto> [FormatInt (int (length payload))])\<rparr>)"
    by (simp only: same)
  moreover have "decimal (FormatInt (int (length payload))) = length payload"
    by (simp add: FormatInt_def decimal_utoa)
  ultimately show ?thesis
    by simp
qed

theorem modifyFunc_identity_witness:
  "modifyFunc \<lparr>StatusCode = 404, Body = Reader ''page not found'' None, ContentLength = - 1,
               RespHeader = [''Content-Type'' \<mapsto> [''text/plain'']]\<rparr>
     = Inr \<lparr>StatusCode = 404, Body = Reader ''page not found'' None, ContentLength = 14,
            RespHeader = [''Content-Type'' \<mapsto> [''text/plain''], ''Content-Length'' \<mapsto> [''14'']]\<rparr>"
proof -
  have "FormatInt 14 = ''14''"
    by (simp add: FormatInt_def utoa.simps digit_def)
  then show ?thesis
    using modifyFunc_identity [of "\<lparr>StatusCode = 404, Body = Reader ''page not found'' None,
        ContentLength = - 1, RespHeader = [''Content-Type'' \<mapsto> [''text/plain'']]\<rparr>" "''page not found''"]
    by simp
qed

end
